theory Spec2Isabelle
  imports Complex_Main "HOL-Library.Sublist"
begin

section \<open>Trademark search: the in-memory filtering and ranking engine\<close>

text \<open>
  A shallow embedding of \<^verbatim>\<open>app/db/database.py\<close> (class \<^verbatim>\<open>SearchmarkDatabase\<close>):
  \<^verbatim>\<open>search_searchmarks\<close> and \<^verbatim>\<open>get_statistics\<close>.

  Strings are byte sequences (\<open>string\<close>); a non-ASCII text is its UTF-8 encoding, on
  which substring containment agrees with Python's. Case folding, whitespace and digits
  are the ASCII ones. The similarity function \<^verbatim>\<open>rapidfuzz.fuzz.ratio\<close> is a library
  function outside the repository: it is a parameter \<open>ratio\<close> of the model, and the
  float it returns is modelled by the real number it denotes.
\<close>

subsection \<open>Values, records, errors\<close>

text \<open>
  A record is a dictionary as \<^verbatim>\<open>json.load\<close> produces it. \<open>JNull\<close> is \<^verbatim>\<open>None\<close>,
  \<open>JStr\<close> a string, \<open>JList\<close> a list of strings, \<open>JNum\<close> a number (also the
  \<^verbatim>\<open>similarity_score\<close> that a fuzzy query writes).
\<close>

datatype jvalue = JNull | JStr string | JList "string list" | JNum real

type_synonym item = "string \<rightharpoonup> jvalue"

datatype error = AttributeError | TypeError

text \<open>Truthiness of \<^verbatim>\<open>item.get(k)\<close>: a missing key gives \<^verbatim>\<open>None\<close>.\<close>

fun truthy :: "jvalue option \<Rightarrow> bool" where
  "truthy None = False"
| "truthy (Some JNull) = False"
| "truthy (Some (JStr s)) = (s \<noteq> [])"
| "truthy (Some (JList l)) = (l \<noteq> [])"
| "truthy (Some (JNum r)) = (r \<noteq> 0)"

subsection \<open>The Python built-ins the code uses\<close>

text \<open>\<^verbatim>\<open>s.lower()\<close>: the letters A to Z become a to z, every other byte stays.\<close>

definition lower_char :: "char \<Rightarrow> char" where
  "lower_char c =
     (case map_of (zip ''ABCDEFGHIJKLMNOPQRSTUVWXYZ'' ''abcdefghijklmnopqrstuvwxyz'') c of
        Some l \<Rightarrow> l
      | None \<Rightarrow> c)"

definition py_lower :: "string \<Rightarrow> string" where
  "py_lower s = map lower_char s"

definition is_space :: "char \<Rightarrow> bool" where
  "is_space c = (let n = (of_char c :: nat) in (9 \<le> n \<and> n \<le> 13) \<or> (28 \<le> n \<and> n \<le> 32))"

definition py_strip :: "string \<Rightarrow> string" where
  "py_strip s = rev (dropWhile is_space (rev (dropWhile is_space s)))"

text \<open>\<^verbatim>\<open>s.split(',')\<close>: always at least one piece.\<close>

fun py_split :: "char \<Rightarrow> string \<Rightarrow> string list" where
  "py_split d [] = [[]]"
| "py_split d (c # cs) =
     (if c = d then [] # py_split d cs
      else (case py_split d cs of [] \<Rightarrow> [[c]] | w # ws \<Rightarrow> (c # w) # ws))"

definition is_digit :: "char \<Rightarrow> bool" where
  "is_digit c = (let n = (of_char c :: nat) in 48 \<le> n \<and> n \<le> 57)"

definition digit_val :: "char \<Rightarrow> int" where
  "digit_val c = int (of_char c) - 48"

text \<open>
  \<^verbatim>\<open>int(code)\<close> in base ten: surrounding whitespace, an optional sign, digits with
  single underscores between them. \<open>None\<close> is \<^verbatim>\<open>ValueError\<close>. (The interpreter's
  configurable limit on the number of digits is not modelled.)
\<close>

fun parse_digits :: "int \<Rightarrow> string \<Rightarrow> int option" where
  "parse_digits acc [] = Some acc"
| "parse_digits acc [c] = (if is_digit c then Some (10 * acc + digit_val c) else None)"
| "parse_digits acc (c # d # cs) =
     (if is_digit c then parse_digits (10 * acc + digit_val c) (d # cs)
      else if c = CHR ''_'' \<and> is_digit d then parse_digits acc (d # cs)
      else None)"

fun parse_unsigned :: "string \<Rightarrow> int option" where
  "parse_unsigned [] = None"
| "parse_unsigned (c # cs) = (if is_digit c then parse_digits (digit_val c) cs else None)"

definition py_int :: "string \<Rightarrow> int option" where
  "py_int s =
     (case py_strip s of
        [] \<Rightarrow> None
      | c # cs \<Rightarrow>
          if c = CHR ''-'' then map_option uminus (parse_unsigned cs)
          else if c = CHR ''+'' then parse_unsigned cs
          else parse_unsigned (c # cs))"

text \<open>\<^verbatim>\<open>x in s\<close> for two strings: \<open>x\<close> occurs in \<open>s\<close> as a contiguous piece.\<close>

fun py_str_in :: "string \<Rightarrow> string \<Rightarrow> bool" where
  "py_str_in x [] = (x = [])"
| "py_str_in x (c # s) = (prefix x (c # s) \<or> py_str_in x s)"

text \<open>
  \<^verbatim>\<open>x in v\<close> for a string \<open>x\<close>: substring of a string, element of a list; a number or
  \<^verbatim>\<open>None\<close> on the right raises \<^verbatim>\<open>TypeError\<close>.
\<close>

fun py_in :: "string \<Rightarrow> jvalue \<Rightarrow> error + bool" where
  "py_in x (JStr s) = Inr (py_str_in x s)"
| "py_in x (JList l) = Inr (x \<in> set l)"
| "py_in x (JNum r) = Inl TypeError"
| "py_in x JNull = Inl TypeError"

text \<open>\<^verbatim>\<open>results[:limit]\<close>: no limit, a prefix, or all but the last \<open>-n\<close>.\<close>

definition py_slice_to :: "int option \<Rightarrow> 'a list \<Rightarrow> 'a list" where
  "py_slice_to limit xs =
     (case limit of
        None \<Rightarrow> xs
      | Some n \<Rightarrow> if 0 \<le> n then take (nat n) xs else take (length xs - nat (- n)) xs)"

text \<open>
  \<^verbatim>\<open>sorted(xs, key=k, reverse=True)\<close>: descending in the key, and stable (Python keeps
  the original order of elements with equal keys also under \<^verbatim>\<open>reverse=True\<close>).
\<close>

text \<open>\<open>x\<close> stood before every element of \<open>ys\<close>: it stays before those of equal key.\<close>

fun insert_desc :: "('a \<Rightarrow> real) \<Rightarrow> 'a \<Rightarrow> 'a list \<Rightarrow> 'a list" where
  "insert_desc k x [] = [x]"
| "insert_desc k x (y # ys) = (if k y \<le> k x then x # y # ys else y # insert_desc k x ys)"

fun sorted_desc :: "('a \<Rightarrow> real) \<Rightarrow> 'a list \<Rightarrow> 'a list" where
  "sorted_desc k [] = []"
| "sorted_desc k (x # xs) = insert_desc k x (sorted_desc k xs)"

text \<open>A list comprehension whose condition may raise: the first error ends it.\<close>

fun filter_err :: "('a \<Rightarrow> error + bool) \<Rightarrow> 'a list \<Rightarrow> error + 'a list" where
  "filter_err p [] = Inr []"
| "filter_err p (x # xs) =
     (case p x of
        Inl e \<Rightarrow> Inl e
      | Inr b \<Rightarrow>
          (case filter_err p xs of
             Inl e \<Rightarrow> Inl e
           | Inr ys \<Rightarrow> Inr (if b then x # ys else ys)))"

definition then_err :: "error + 'a \<Rightarrow> ('a \<Rightarrow> error + 'b) \<Rightarrow> error + 'b" where
  "then_err m f = (case m of Inl e \<Rightarrow> Inl e | Inr x \<Rightarrow> f x)"

subsection \<open>The query\<close>

record query =
  productName :: "string option"
  status :: "string option"
  applicationNumber :: "string option"
  publicationNumber :: "string option"
  registrationNumber :: "string option"
  internationalRegNumbers :: "string option"
  priorityClaimNumList :: "string option"
  asignProductMainCodeList :: "string option"
  viennaCodeList :: "string option"
  limit :: "int option"
  use_fuzzy_search :: bool

subsection \<open>The name filter\<close>

text \<open>
  One name field's score in the fuzzy loop: 0 unless the field is truthy, else
  \<^verbatim>\<open>fuzz.ratio(productName, item[k].lower())\<close>; only a string has \<^verbatim>\<open>lower\<close>.
\<close>

definition name_score :: "(string \<Rightarrow> string \<Rightarrow> real) \<Rightarrow> string \<Rightarrow> jvalue option \<Rightarrow> error + real" where
  "name_score ratio q v =
     (if truthy v
      then (case v of Some (JStr s) \<Rightarrow> Inr (ratio q (py_lower s)) | _ \<Rightarrow> Inl AttributeError)
      else Inr 0)"

definition similarity :: "(string \<Rightarrow> string \<Rightarrow> real) \<Rightarrow> string \<Rightarrow> item \<Rightarrow> error + real" where
  "similarity ratio q item =
     then_err (name_score ratio q (item ''productName'')) (\<lambda>korean_score.
     then_err (name_score ratio q (item ''productNameEng'')) (\<lambda>eng_score.
     Inr (max korean_score eng_score)))"

text \<open>
  The fuzzy loop. \<^verbatim>\<open>results = self.data.copy()\<close> is a shallow copy: the working list
  holds the very dictionaries of \<^verbatim>\<open>self.data\<close>, each once and in the same order, so
  \<^verbatim>\<open>item['similarity_score'] = similarity_score\<close> writes into the stored record at that
  position. The loop therefore returns both the stored list as it is afterwards and
  \<^verbatim>\<open>fuzzy_results\<close>; the updated record is the same in both.
\<close>

fun fuzzy_loop ::
  "(string \<Rightarrow> string \<Rightarrow> real) \<Rightarrow> string \<Rightarrow> item list \<Rightarrow> error + (item list \<times> item list)" where
  "fuzzy_loop ratio q [] = Inr ([], [])"
| "fuzzy_loop ratio q (item # rest) =
     (case similarity ratio q item of
        Inl e \<Rightarrow> Inl e
      | Inr similarity_score \<Rightarrow>
          (case fuzzy_loop ratio q rest of
             Inl e \<Rightarrow> Inl e
           | Inr (data', fuzzy_results) \<Rightarrow>
               if 40 \<le> similarity_score
               then Inr (item(''similarity_score'' \<mapsto> JNum similarity_score) # data',
                         item(''similarity_score'' \<mapsto> JNum similarity_score) # fuzzy_results)
               else Inr (item # data', fuzzy_results)))"

text \<open>
  The sort key \<^verbatim>\<open>x['similarity_score']\<close>; every element of \<^verbatim>\<open>fuzzy_results\<close> has just
  been given one (lemma \<open>fuzzy_loop_scored\<close>), so the other branch is never taken.
\<close>

definition score_key :: "item \<Rightarrow> real" where
  "score_key x = (case x ''similarity_score'' of Some (JNum s) \<Rightarrow> s | _ \<Rightarrow> 0)"

text \<open>\<^verbatim>\<open>item.get(k) and x in item[k]\<close>\<close>

definition contains_filter :: "string \<Rightarrow> string \<Rightarrow> item \<Rightarrow> error + bool" where
  "contains_filter k x item =
     (if truthy (item k) then (case item k of Some v \<Rightarrow> py_in x v | None \<Rightarrow> Inr False)
      else Inr False)"

text \<open>The condition of the plain name filter; \<^verbatim>\<open>or\<close> stops at the first true side.\<close>

definition name_match :: "string \<Rightarrow> item \<Rightarrow> error + bool" where
  "name_match q item =
     (case contains_filter ''productName'' q item of
        Inl e \<Rightarrow> Inl e
      | Inr b \<Rightarrow> if b then Inr True else contains_filter ''productNameEng'' q item)"

text \<open>
  The name stage: skipped unless \<^verbatim>\<open>productName\<close> is truthy; the query is lowercased;
  then the fuzzy loop and the sort, or the plain filter. Returns the stored list as it is
  afterwards, and the working list.
\<close>

definition name_stage ::
  "(string \<Rightarrow> string \<Rightarrow> real) \<Rightarrow> query \<Rightarrow> item list \<Rightarrow> error + (item list \<times> item list)" where
  "name_stage ratio q data =
     (case productName q of
        None \<Rightarrow> Inr (data, data)
      | Some name \<Rightarrow>
          if name = [] then Inr (data, data)
          else if use_fuzzy_search q
          then then_err (fuzzy_loop ratio (py_lower name) data) (\<lambda>(data', fuzzy_results).
                 Inr (data', sorted_desc score_key fuzzy_results))
          else then_err (filter_err (name_match (py_lower name)) data) (\<lambda>results.
                 Inr (data, results)))"

subsection \<open>The other filters\<close>

text \<open>\<^verbatim>\<open>item.get('registerStatus') == status\<close>\<close>

definition status_match :: "string \<Rightarrow> item \<Rightarrow> error + bool" where
  "status_match s item = Inr (item ''registerStatus'' = Some (JStr s))"

text \<open>The normalisation of one code of the code-list filter.\<close>

definition format_code :: "string \<Rightarrow> string" where
  "format_code code =
     (case py_int code of
        Some num_code \<Rightarrow> if num_code < 10 then CHR ''0'' # code else code
      | None \<Rightarrow> code)"

definition formatted_codes :: "string \<Rightarrow> string list" where
  "formatted_codes arg = map format_code (map py_strip (py_split CHR '','' arg))"

text \<open>\<^verbatim>\<open>any(code in v for code in formatted_codes)\<close>\<close>

fun any_in :: "string list \<Rightarrow> jvalue \<Rightarrow> error + bool" where
  "any_in [] v = Inr False"
| "any_in (code # codes) v =
     (case py_in code v of
        Inl e \<Rightarrow> Inl e
      | Inr b \<Rightarrow> if b then Inr True else any_in codes v)"

definition code_match :: "string \<Rightarrow> item \<Rightarrow> error + bool" where
  "code_match arg item =
     (if truthy (item ''asignProductMainCodeList'')
      then (case item ''asignProductMainCodeList'' of
              Some v \<Rightarrow> any_in (formatted_codes arg) v
            | None \<Rightarrow> Inr False)
      else Inr False)"

text \<open>One filter pass: skipped unless its criterion is truthy.\<close>

definition stage ::
  "string option \<Rightarrow> (string \<Rightarrow> item \<Rightarrow> error + bool) \<Rightarrow> item list \<Rightarrow> error + item list" where
  "stage arg p results =
     (case arg of
        None \<Rightarrow> Inr results
      | Some v \<Rightarrow> if v = [] then Inr results else filter_err (p v) results)"

definition filters :: "query \<Rightarrow> item list \<Rightarrow> error + item list" where
  "filters q results =
     then_err (stage (status q) status_match results) (\<lambda>r.
     then_err (stage (asignProductMainCodeList q) code_match r) (\<lambda>r.
     then_err (stage (applicationNumber q) (contains_filter ''applicationNumber'') r) (\<lambda>r.
     then_err (stage (publicationNumber q) (contains_filter ''publicationNumber'') r) (\<lambda>r.
     then_err (stage (registrationNumber q) (contains_filter ''registrationNumber'') r) (\<lambda>r.
     then_err (stage (internationalRegNumbers q) (contains_filter ''internationalRegNumbers'') r) (\<lambda>r.
     then_err (stage (priorityClaimNumList q) (contains_filter ''priorityClaimNumList'') r) (\<lambda>r.
     stage (viennaCodeList q) (contains_filter ''viennaCodeList'') r)))))))"

subsection \<open>search_searchmarks\<close>

text \<open>
  The result is \<^verbatim>\<open>self.data\<close> as the call leaves it, and the returned list. (When a
  later pass raises, the writes of the fuzzy loop have happened all the same; the
  model keeps only the error.)
\<close>

definition search_searchmarks ::
  "(string \<Rightarrow> string \<Rightarrow> real) \<Rightarrow> item list \<Rightarrow> query \<Rightarrow> error + (item list \<times> item list)" where
  "search_searchmarks ratio data q =
     then_err (name_stage ratio q data) (\<lambda>(data', results).
     then_err (filters q results) (\<lambda>results.
     Inr (data', py_slice_to (limit q) results)))"

subsection \<open>get_statistics\<close>

text \<open>The sentinel \<^verbatim>\<open>'\<close>unclassified\<^verbatim>\<open>'\<close> of the source, a Korean word, in UTF-8.\<close>

definition unclassified :: string where
  "unclassified =
     [CHR 0xEB, CHR 0xAF, CHR 0xB8,
      CHR 0xEB, CHR 0xB6, CHR 0x84,
      CHR 0xEB, CHR 0xA5, CHR 0x98]"

text \<open>\<^verbatim>\<open>item.get('registerStatus', sentinel)\<close>: the default stands in for a missing key only.\<close>

definition status_of :: "item \<Rightarrow> jvalue" where
  "status_of item = (case item ''registerStatus'' of None \<Rightarrow> JStr unclassified | Some v \<Rightarrow> v)"

text \<open>The counting loop; a list is not hashable, so it cannot be a key.\<close>

fun count_statuses :: "(jvalue \<rightharpoonup> nat) \<Rightarrow> item list \<Rightarrow> error + (jvalue \<rightharpoonup> nat)" where
  "count_statuses status_counts [] = Inr status_counts"
| "count_statuses status_counts (item # rest) =
     (case status_of item of
        JList l \<Rightarrow> Inl TypeError
      | s \<Rightarrow> count_statuses
               (status_counts(s \<mapsto> (case status_counts s of None \<Rightarrow> 0 | Some c \<Rightarrow> c) + 1)) rest)"

text \<open>The returned dictionary: \<open>status_counts = None\<close> when it has no such key.\<close>

record statistics =
  total :: nat
  status_counts :: "(jvalue \<rightharpoonup> nat) option"

definition get_statistics :: "item list \<Rightarrow> error + statistics" where
  "get_statistics data =
     (if data = [] then Inr \<lparr>total = 0, status_counts = None\<rparr>
      else (case count_statuses Map.empty data of
              Inl e \<Rightarrow> Inl e
            | Inr m \<Rightarrow> Inr \<lparr>total = length data, status_counts = Some m\<rparr>))"

subsection \<open>Records as the response model declares them\<close>

text \<open>
  \<^verbatim>\<open>SearchmarkBase\<close> declares the name fields as optional strings and the code and
  number fields as optional strings or lists of strings. \<open>text_field\<close> holds of a
  field that is absent, \<^verbatim>\<open>None\<close> or a string; \<open>list_field\<close> also of a list of strings.
\<close>

definition text_field :: "jvalue option \<Rightarrow> bool" where
  "text_field v = (case v of Some (JList l) \<Rightarrow> False | Some (JNum r) \<Rightarrow> False | _ \<Rightarrow> True)"

definition list_field :: "jvalue option \<Rightarrow> bool" where
  "list_field v = (case v of Some (JNum r) \<Rightarrow> False | _ \<Rightarrow> True)"

definition record_ok :: "item \<Rightarrow> bool" where
  "record_ok item =
     (text_field (item ''productName'') \<and> text_field (item ''productNameEng'') \<and>
      list_field (item ''asignProductMainCodeList'') \<and>
      list_field (item ''applicationNumber'') \<and>
      list_field (item ''publicationNumber'') \<and>
      list_field (item ''registrationNumber'') \<and>
      list_field (item ''internationalRegNumbers'') \<and>
      list_field (item ''priorityClaimNumList'') \<and>
      list_field (item ''viennaCodeList''))"

text \<open>A pass over well-typed records that succeeds and keeps some of them, in order.\<close>

definition passes_on :: "item list \<Rightarrow> error + item list \<Rightarrow> bool" where
  "passes_on r m = (\<exists>r'. m = Inr r' \<and> subseq r' r \<and> list_all record_ok r')"

subsection \<open>The specification's wording, for comparison with the code\<close>

text \<open>
  The score of the specification: the larger of the similarities of the query to the
  lowercased primary and English names, a missing (or empty) name counting 0.
\<close>

definition spec_field_score :: "(string \<Rightarrow> string \<Rightarrow> real) \<Rightarrow> string \<Rightarrow> jvalue option \<Rightarrow> real" where
  "spec_field_score ratio q v =
     (case v of Some (JStr s) \<Rightarrow> if s = [] then 0 else ratio q (py_lower s) | _ \<Rightarrow> 0)"

definition spec_score :: "(string \<Rightarrow> string \<Rightarrow> real) \<Rightarrow> string \<Rightarrow> item \<Rightarrow> real" where
  "spec_score ratio q item =
     max (spec_field_score ratio q (item ''productName''))
         (spec_field_score ratio q (item ''productNameEng''))"

text \<open>The record with its score attached, as a survivor of the fuzzy loop has it.\<close>

definition attach_score :: "(string \<Rightarrow> string \<Rightarrow> real) \<Rightarrow> string \<Rightarrow> item \<Rightarrow> item" where
  "attach_score ratio q item = item(''similarity_score'' \<mapsto> JNum (spec_score ratio q item))"

text \<open>
  Passing the code-list filter: a stored list has one of the normalised codes as an
  element; a stored string has one of them as a substring.
\<close>

definition code_pass :: "string \<Rightarrow> item \<Rightarrow> bool" where
  "code_pass arg item =
     (case item ''asignProductMainCodeList'' of
        Some (JList l) \<Rightarrow> set (formatted_codes arg) \<inter> set l \<noteq> {}
      | Some (JStr s) \<Rightarrow> s \<noteq> [] \<and> list_ex (\<lambda>code. py_str_in code s) (formatted_codes arg)
      | _ \<Rightarrow> False)"

text \<open>A value that can be the key of a dictionary: anything but a list.\<close>

definition hashable :: "jvalue \<Rightarrow> bool" where
  "hashable v = (case v of JList l \<Rightarrow> False | _ \<Rightarrow> True)"

text \<open>The number of records of a status, and the map of the non-zero counts.\<close>

definition tally :: "item list \<Rightarrow> jvalue \<Rightarrow> nat" where
  "tally data s = length (filter (\<lambda>item. status_of item = s) data)"

definition tally_map :: "item list \<Rightarrow> (jvalue \<rightharpoonup> nat)" where
  "tally_map data = (\<lambda>s. if tally data s = 0 then None else Some (tally data s))"

subsection \<open>A similarity function and records to run the model on\<close>

text \<open>
  The ratio of \<^verbatim>\<open>rapidfuzz\<close> in exact arithmetic: 100 times twice the length of a
  longest common subsequence over the sum of the lengths (100 for two empty strings).
\<close>

fun lcs_len :: "string \<Rightarrow> string \<Rightarrow> nat" where
  "lcs_len [] t = 0"
| "lcs_len (a # s) [] = 0"
| "lcs_len (a # s) (b # t) =
     (if a = b then Suc (lcs_len s t) else max (lcs_len s (b # t)) (lcs_len (a # s) t))"

definition indel_ratio :: "string \<Rightarrow> string \<Rightarrow> real" where
  "indel_ratio s t =
     (if s = [] \<and> t = [] then 100 else 200 * real (lcs_len s t) / real (length s + length t))"

text \<open>A similarity function that gives two chosen names the scores 40 and 39.\<close>

definition table_ratio :: "string \<Rightarrow> string \<Rightarrow> real" where
  "table_ratio q s = (if s = ''forty'' then 40 else if s = ''thirty-nine'' then 39 else 0)"

definition no_criteria :: query where
  "no_criteria =
     \<lparr>productName = None, status = None, applicationNumber = None, publicationNumber = None,
      registrationNumber = None, internationalRegNumbers = None, priorityClaimNumList = None,
      asignProductMainCodeList = None, viennaCodeList = None, limit = None,
      use_fuzzy_search = False\<rparr>"

definition apple :: item where
  "apple = [''productName'' \<mapsto> JStr ''apple'']"

definition apple_inc :: item where
  "apple_inc = [''productName'' \<mapsto> JStr ''Apple Inc'', ''productNameEng'' \<mapsto> JStr ''ACME'']"

definition forty :: item where
  "forty = [''productName'' \<mapsto> JStr ''Forty'']"

definition thirty_nine :: item where
  "thirty_nine = [''productNameEng'' \<mapsto> JStr ''Thirty-Nine'']"

definition rec_ab :: item where
  "rec_ab = [''productName'' \<mapsto> JStr ''AB'']"

definition rec_abcd :: item where
  "rec_abcd = [''productName'' \<mapsto> JStr ''x'', ''productNameEng'' \<mapsto> JStr ''ABCD'']"

definition rec_cd :: item where
  "rec_cd = [''productName'' \<mapsto> JStr ''cd'']"

definition registered :: item where
  "registered = [''productName'' \<mapsto> JStr ''pear'', ''registerStatus'' \<mapsto> JStr ''registered'']"

definition class_07 :: item where
  "class_07 = [''asignProductMainCodeList'' \<mapsto> JList [''07'']]"

definition class_012 :: item where
  "class_012 = [''asignProductMainCodeList'' \<mapsto> JList [''012'']]"

section \<open>Properties\<close>

subsection \<open>Which fields of the query a stage reads\<close>

lemmas search_defs = search_searchmarks_def name_stage_def filters_def stage_def then_err_def

lemma name_stage_cong:
  "productName q = productName q' \<Longrightarrow> use_fuzzy_search q = use_fuzzy_search q' \<Longrightarrow>
   name_stage ratio q data = name_stage ratio q' data"
  by (cases "productName q'") (simp_all add: name_stage_def)

lemma name_stage_other_fields:
  "name_stage ratio (q\<lparr>status := a\<rparr>) data = name_stage ratio q data"
  "name_stage ratio (q\<lparr>asignProductMainCodeList := a\<rparr>) data = name_stage ratio q data"
  "name_stage ratio (q\<lparr>applicationNumber := a\<rparr>) data = name_stage ratio q data"
  "name_stage ratio (q\<lparr>publicationNumber := a\<rparr>) data = name_stage ratio q data"
  "name_stage ratio (q\<lparr>registrationNumber := a\<rparr>) data = name_stage ratio q data"
  "name_stage ratio (q\<lparr>internationalRegNumbers := a\<rparr>) data = name_stage ratio q data"
  "name_stage ratio (q\<lparr>priorityClaimNumList := a\<rparr>) data = name_stage ratio q data"
  "name_stage ratio (q\<lparr>viennaCodeList := a\<rparr>) data = name_stage ratio q data"
  "name_stage ratio (q\<lparr>limit := l\<rparr>) data = name_stage ratio q data"
  by (rule name_stage_cong; simp)+

lemma name_stage_empty:
  "name_stage ratio (q\<lparr>productName := Some []\<rparr>) data = Inr (data, data)"
  "name_stage ratio (q\<lparr>productName := None\<rparr>) data = Inr (data, data)"
  by (simp_all add: name_stage_def)

lemma filters_other_fields:
  "filters (q\<lparr>productName := a\<rparr>) results = filters q results"
  "filters (q\<lparr>limit := l\<rparr>) results = filters q results"
  "filters (q\<lparr>use_fuzzy_search := b\<rparr>) results = filters q results"
  by (simp_all add: filters_def)

subsection \<open>Passes over well-typed records do not raise\<close>

lemma then_err_Inr: "m = Inr x \<Longrightarrow> then_err m f = f x"
  by (simp add: then_err_def)

lemma filter_err_total:
  "\<forall>x\<in>set xs. \<exists>b. p x = Inr b \<Longrightarrow> filter_err p xs = Inr (filter (\<lambda>x. p x = Inr True) xs)"
  by (induction xs) auto

lemma text_field_list_field: "text_field v \<Longrightarrow> list_field v"
  by (auto simp: text_field_def list_field_def split: option.splits jvalue.splits)

lemma contains_filter_total: "list_field (item k) \<Longrightarrow> \<exists>b. contains_filter k x item = Inr b"
  by (auto simp: contains_filter_def list_field_def split: option.splits jvalue.splits)

lemma any_in_JStr: "\<exists>b. any_in codes (JStr s) = Inr b"
  by (induction codes) auto

lemma any_in_JList: "\<exists>b. any_in codes (JList l) = Inr b"
  by (induction codes) auto

lemma code_match_total:
  "list_field (item ''asignProductMainCodeList'') \<Longrightarrow> \<exists>b. code_match arg item = Inr b"
  by (auto simp: code_match_def list_field_def any_in_JStr any_in_JList
      split: option.splits jvalue.splits)

lemma name_match_total:
  "list_field (item ''productName'') \<Longrightarrow> list_field (item ''productNameEng'') \<Longrightarrow>
   \<exists>b. name_match q item = Inr b"
  using contains_filter_total [of item "''productName''" q]
    contains_filter_total [of item "''productNameEng''" q]
  by (auto simp: name_match_def)

lemma name_score_total:
  "text_field v \<Longrightarrow> name_score ratio q v = Inr (spec_field_score ratio q v)"
  by (auto simp: name_score_def spec_field_score_def text_field_def
      split: option.splits jvalue.splits)

lemma similarity_total:
  "text_field (item ''productName'') \<Longrightarrow> text_field (item ''productNameEng'') \<Longrightarrow>
   similarity ratio q item = Inr (spec_score ratio q item)"
  by (simp add: similarity_def spec_score_def name_score_total then_err_def)

lemma fuzzy_loop_total:
  "list_all (\<lambda>item. text_field (item ''productName'') \<and> text_field (item ''productNameEng'')) data \<Longrightarrow>
   fuzzy_loop ratio q data =
     Inr (map (\<lambda>item. if 40 \<le> spec_score ratio q item then attach_score ratio q item else item) data,
          map (attach_score ratio q) (filter (\<lambda>item. 40 \<le> spec_score ratio q item) data))"
  by (induction data) (simp_all add: similarity_total attach_score_def)

lemma record_ok_attach: "record_ok (item(''similarity_score'' \<mapsto> v)) = record_ok item"
  by (simp add: record_ok_def)

lemma record_ok_names:
  "record_ok item \<Longrightarrow> text_field (item ''productName'') \<and> text_field (item ''productNameEng'')"
  by (simp add: record_ok_def)

lemma set_insert_desc: "set (insert_desc k x ys) = insert x (set ys)"
  by (induction ys) auto

lemma set_sorted_desc: "set (sorted_desc k xs) = set xs"
  by (induction xs) (auto simp: set_insert_desc)

lemma passes_on_refl: "list_all record_ok r \<Longrightarrow> passes_on r (Inr r)"
  by (simp add: passes_on_def)

lemma filter_err_passes:
  assumes ok: "list_all record_ok r"
    and total: "\<And>x. record_ok x \<Longrightarrow> \<exists>b. p x = Inr b"
  shows "passes_on r (filter_err p r)"
proof -
  from ok total have "\<forall>x\<in>set r. \<exists>b. p x = Inr b"
    by (simp add: list_all_iff)
  then have "filter_err p r = Inr (filter (\<lambda>x. p x = Inr True) r)"
    by (rule filter_err_total)
  with ok show ?thesis
    by (simp add: passes_on_def list_all_iff)
qed

lemma stage_passes:
  assumes ok: "list_all record_ok r"
    and total: "\<And>v x. record_ok x \<Longrightarrow> \<exists>b. p v x = Inr b"
  shows "passes_on r (stage arg p r)"
proof (cases arg)
  case None
  with ok show ?thesis by (simp add: stage_def passes_on_refl)
next
  case (Some v)
  show ?thesis
  proof (cases "v = []")
    case True
    with Some ok show ?thesis by (simp add: stage_def passes_on_refl)
  next
    case False
    with Some have "stage arg p r = filter_err (p v) r" by (simp add: stage_def)
    with ok total show ?thesis by (simp add: filter_err_passes)
  qed
qed

lemma then_stage_passes:
  assumes ok: "list_all record_ok r"
    and total: "\<And>v x. record_ok x \<Longrightarrow> \<exists>b. p v x = Inr b"
    and rest: "\<And>r'. list_all record_ok r' \<Longrightarrow> passes_on r' (f r')"
  shows "passes_on r (then_err (stage arg p r) f)"
proof -
  have "passes_on r (stage arg p r)"
    using ok by (rule stage_passes) (rule total)
  then obtain r' where
    r': "stage arg p r = Inr r'" "subseq r' r" "list_all record_ok r'"
    by (auto simp: passes_on_def)
  have "passes_on r' (f r')"
    using r'(3) by (rule rest)
  then obtain r'' where
    r'': "f r' = Inr r''" "subseq r'' r'" "list_all record_ok r''"
    by (auto simp: passes_on_def)
  from r'(2) r''(2) have "subseq r'' r" by (rule subseq_order.trans [rotated])
  with r'(1) r''(1,3) show ?thesis
    by (simp add: passes_on_def then_err_def)
qed

lemma status_match_total: "\<exists>b. status_match s item = Inr b"
  by (simp add: status_match_def)

lemma filters_passes:
  assumes ok: "list_all record_ok r"
  shows "passes_on r (filters q r)"
  unfolding filters_def
  apply (rule then_stage_passes [OF ok])
   apply (rule status_match_total)
  apply (rule then_stage_passes, assumption)
   apply (simp add: code_match_total record_ok_def)
  apply (rule then_stage_passes, assumption)
   apply (simp add: contains_filter_total record_ok_def)
  apply (rule then_stage_passes, assumption)
   apply (simp add: contains_filter_total record_ok_def)
  apply (rule then_stage_passes, assumption)
   apply (simp add: contains_filter_total record_ok_def)
  apply (rule then_stage_passes, assumption)
   apply (simp add: contains_filter_total record_ok_def)
  apply (rule then_stage_passes, assumption)
   apply (simp add: contains_filter_total record_ok_def)
  apply (rule stage_passes, assumption)
  apply (simp add: contains_filter_total record_ok_def)
  done

lemma name_stage_passes:
  assumes ok: "list_all record_ok data"
  shows "\<exists>data' r. name_stage ratio q data = Inr (data', r) \<and> list_all record_ok r"
proof (cases "productName q")
  case None
  with ok show ?thesis by (simp add: name_stage_def)
next
  case (Some name)
  from ok have names:
    "list_all (\<lambda>item. text_field (item ''productName'') \<and> text_field (item ''productNameEng'')) data"
    by (simp add: list_all_iff record_ok_names)
  show ?thesis
  proof (cases "name = []")
    case True
    with Some ok show ?thesis by (simp add: name_stage_def)
  next
    case False
    show ?thesis
    proof (cases "use_fuzzy_search q")
      case True
      with Some False ok show ?thesis
        by (auto simp: name_stage_def fuzzy_loop_total [OF names] then_err_def list_all_iff
            set_sorted_desc attach_score_def record_ok_attach)
    next
      case fuzzy: False
      have "passes_on data (filter_err (name_match (py_lower name)) data)"
        using ok
        by (rule filter_err_passes)
          (simp add: name_match_total record_ok_def text_field_list_field)
      with Some False fuzzy show ?thesis
        by (auto simp: name_stage_def then_err_def passes_on_def)
    qed
  qed
qed

lemma search_total:
  assumes ok: "list_all record_ok data"
  shows "\<exists>data' results. search_searchmarks ratio data q = Inr (data', results)"
proof -
  from name_stage_passes [OF ok] obtain data' r where
    r: "name_stage ratio q data = Inr (data', r)" "list_all record_ok r"
    by blast
  from filters_passes [OF r(2)] obtain r' where "filters q r = Inr r'"
    by (auto simp: passes_on_def)
  with r(1) show ?thesis
    by (simp add: search_searchmarks_def then_err_def)
qed

text \<open>
  Claim C9. Over records typed as the response model declares them, a search raises
  nothing, whatever the query: it returns a stored list and a result. A code of the
  code-list filter that is not an integer is used as it is; a record whose filtered
  field is missing, \<^verbatim>\<open>None\<close> or empty does not match, in every filter.
\<close>

theorem search_never_raises:
  "(list_all record_ok data \<longrightarrow>
      (\<exists>data' results. search_searchmarks ratio data q = Inr (data', results)))
   \<and> (py_int code = None \<longrightarrow> format_code code = code)
   \<and> (\<not> truthy (item k) \<longrightarrow> contains_filter k x item = Inr False)
   \<and> (\<not> truthy (item ''asignProductMainCodeList'') \<longrightarrow> code_match arg item = Inr False)
   \<and> (\<not> truthy (item ''productName'') \<and> \<not> truthy (item ''productNameEng'') \<longrightarrow>
        name_match x item = Inr False)
   \<and> (item ''registerStatus'' = None \<longrightarrow> status_match s item = Inr False)"
  by (simp add: search_total format_code_def contains_filter_def code_match_def
      name_match_def status_match_def)

theorem search_never_raises_witness:
  "list_all record_ok [apple_inc, class_07]
   \<and> (\<exists>data' results.
        search_searchmarks indel_ratio [apple_inc, class_07]
          (no_criteria\<lparr>productName := Some ''Apple'', asignProductMainCodeList := Some ''x,7'',
             use_fuzzy_search := True\<rparr>) = Inr (data', results))
   \<and> py_int ''x'' = None \<and> format_code ''x'' = ''x''
   \<and> \<not> truthy (apple ''applicationNumber'')
   \<and> contains_filter ''applicationNumber'' ''40'' apple = Inr False
   \<and> code_match ''7'' apple = Inr False
   \<and> name_match ''apple'' class_07 = Inr False
   \<and> status_match ''registered'' apple = Inr False"
  using search_never_raises [where data = "[apple_inc, class_07]" and ratio = indel_ratio
      and q = "no_criteria\<lparr>productName := Some ''Apple'',
         asignProductMainCodeList := Some ''x,7'', use_fuzzy_search := True\<rparr>"
      and code = "''x''" and item = apple and k = "''applicationNumber''" and x = "''40''"
      and arg = "''7''" and s = "''registered''"]
    search_never_raises [where data = "[]" and ratio = indel_ratio and q = no_criteria
      and code = "''x''" and item = class_07 and k = "''productName''" and x = "''apple''"
      and arg = "''7''" and s = "''registered''"]
  by (simp add: record_ok_def text_field_def list_field_def apple_inc_def class_07_def apple_def
      py_int_def py_strip_def is_space_def is_digit_def)

subsection \<open>The fuzzy ranker\<close>

lemma filters_none:
  "status q = None \<Longrightarrow> asignProductMainCodeList q = None \<Longrightarrow> applicationNumber q = None \<Longrightarrow>
   publicationNumber q = None \<Longrightarrow> registrationNumber q = None \<Longrightarrow>
   internationalRegNumbers q = None \<Longrightarrow> priorityClaimNumList q = None \<Longrightarrow>
   viennaCodeList q = None \<Longrightarrow> filters q r = Inr r"
  by (simp add: filters_def stage_def then_err_def)

lemma name_stage_fuzzy:
  assumes "list_all (\<lambda>item. text_field (item ''productName'') \<and> text_field (item ''productNameEng'')) data"
    and "productName q = Some name" and "name \<noteq> []" and "use_fuzzy_search q"
  shows "name_stage ratio q data =
     Inr (map (\<lambda>item. if 40 \<le> spec_score ratio (py_lower name) item
                      then attach_score ratio (py_lower name) item else item) data,
          sorted_desc score_key
            (map (attach_score ratio (py_lower name))
               (filter (\<lambda>item. 40 \<le> spec_score ratio (py_lower name) item) data)))"
  using assms(2-4) by (simp add: name_stage_def fuzzy_loop_total [OF assms(1)] then_err_def)

text \<open>
  Claim C4. In fuzzy mode, over records whose names are strings (or absent, or
  \<^verbatim>\<open>None\<close>), the score the code computes for a record is the score of the
  specification: the larger of the similarities of the lowercased query to the lowercased
  primary and English names, a missing name counting 0. The name stage keeps exactly the
  records whose score is at least 40, each with its score attached; when the query has no
  other criterion and no limit, that is the result of the search.
\<close>

theorem fuzzy_score_and_threshold:
  assumes names: "list_all (\<lambda>item. text_field (item ''productName'') \<and>
      text_field (item ''productNameEng'')) data"
    and q: "productName q = Some name" "name \<noteq> []" "use_fuzzy_search q"
  shows "\<exists>data' results.
      name_stage ratio q data = Inr (data', results)
    \<and> (\<forall>item\<in>set data.
          similarity ratio (py_lower name) item = Inr (spec_score ratio (py_lower name) item))
    \<and> results = sorted_desc score_key
          (map (attach_score ratio (py_lower name))
             (filter (\<lambda>item. 40 \<le> spec_score ratio (py_lower name) item) data))
    \<and> set results = attach_score ratio (py_lower name) `
          {item \<in> set data. 40 \<le> spec_score ratio (py_lower name) item}
    \<and> (status q = None \<and> asignProductMainCodeList q = None \<and> applicationNumber q = None \<and>
        publicationNumber q = None \<and> registrationNumber q = None \<and>
        internationalRegNumbers q = None \<and> priorityClaimNumList q = None \<and>
        viennaCodeList q = None \<and> limit q = None \<longrightarrow>
          search_searchmarks ratio data q = Inr (data', results))"
proof -
  from names have "\<forall>item\<in>set data.
      similarity ratio (py_lower name) item = Inr (spec_score ratio (py_lower name) item)"
    by (simp add: list_all_iff similarity_total)
  then show ?thesis
    by (simp add: name_stage_fuzzy [OF names q] set_sorted_desc search_searchmarks_def
        then_err_def filters_none py_slice_to_def)
qed

theorem fuzzy_score_and_threshold_witness:
  "list_all (\<lambda>item. text_field (item ''productName'') \<and> text_field (item ''productNameEng''))
     [thirty_nine, forty]
   \<and> name_stage table_ratio
     (no_criteria\<lparr>productName := Some ''x'', use_fuzzy_search := True\<rparr>) [thirty_nine, forty] =
     Inr ([thirty_nine, forty(''similarity_score'' \<mapsto> JNum 40)],
          [forty(''similarity_score'' \<mapsto> JNum 40)])
   \<and> similarity table_ratio ''x'' thirty_nine = Inr 39
   \<and> similarity table_ratio ''x'' forty = Inr 40
   \<and> search_searchmarks table_ratio [thirty_nine, forty]
       (no_criteria\<lparr>productName := Some ''x'', use_fuzzy_search := True\<rparr>) =
     Inr ([thirty_nine, forty(''similarity_score'' \<mapsto> JNum 40)],
          [forty(''similarity_score'' \<mapsto> JNum 40)])"
  using fuzzy_score_and_threshold [of "[thirty_nine, forty]"
      "no_criteria\<lparr>productName := Some ''x'', use_fuzzy_search := True\<rparr>" "''x''" table_ratio]
  by (simp add: search_defs similarity_def name_score_def py_slice_to_def thirty_nine_def
      forty_def no_criteria_def table_ratio_def py_lower_def lower_char_def text_field_def)

lemma sorted_insert_desc:
  "sorted_wrt (\<lambda>a b. k b \<le> k a) ys \<Longrightarrow> sorted_wrt (\<lambda>a b. k b \<le> k a) (insert_desc k x ys)"
  by (induction ys) (auto simp: set_insert_desc)

lemma sorted_sorted_desc: "sorted_wrt (\<lambda>a b. k b \<le> k a) (sorted_desc k xs)"
  by (induction xs) (simp_all add: sorted_insert_desc)

lemma filter_insert_desc:
  "filter (\<lambda>y. k y = s) (insert_desc k x ys) =
     (if k x = s then x # filter (\<lambda>y. k y = s) ys else filter (\<lambda>y. k y = s) ys)"
  by (induction ys) auto

lemma sorted_desc_stable:
  "filter (\<lambda>y. k y = s) (sorted_desc k xs) = filter (\<lambda>y. k y = s) xs"
  by (induction xs) (simp_all add: filter_insert_desc)

lemma subseq_set: "subseq xs ys \<Longrightarrow> set xs \<subseteq> set ys"
  by (induction rule: list_emb.induct) auto

lemma sorted_wrt_subseq: "subseq xs ys \<Longrightarrow> sorted_wrt R ys \<Longrightarrow> sorted_wrt R xs"
proof (induction rule: list_emb.induct)
  case (list_emb_Nil ys)
  show ?case by simp
next
  case (list_emb_Cons xs ys y)
  then show ?case by simp
next
  case (list_emb_Cons2 x y xs ys)
  from list_emb_Cons2.hyps(2) have "set xs \<subseteq> set ys" by (rule subseq_set)
  with list_emb_Cons2 show ?case by auto
qed

lemma subseq_py_slice_to: "subseq (py_slice_to l xs) xs"
  by (auto simp: py_slice_to_def split: option.splits intro: prefix_imp_subseq take_is_prefix)

lemma survivors_subseq:
  "subseq (map f (filter P data)) (map (\<lambda>item. if P item then f item else item) data)"
  by (induction data) auto

lemma stored_list_all2:
  "list_all2 (\<lambda>d' d. d' = d \<or> (\<exists>s. d' = d(''similarity_score'' \<mapsto> JNum s)))
     (map (\<lambda>item. if 40 \<le> spec_score ratio q item then attach_score ratio q item else item) data)
     data"
proof -
  have "(if 40 \<le> spec_score ratio q d then attach_score ratio q d else d) = d \<or>
      (\<exists>s. (if 40 \<le> spec_score ratio q d then attach_score ratio q d else d) =
        d(''similarity_score'' \<mapsto> JNum s))" for d
    unfolding attach_score_def by (cases "40 \<le> spec_score ratio q d") (simp_all, blast)
  then show ?thesis
    by (simp only: list_all2_map1 list_all2_same) blast
qed

text \<open>
  Claim C5. In fuzzy mode, over well-typed records, the search returns a list that is
  descending in the score, and stable: the records of any one score come in the order
  they have in the stored list (which is the list given, position by position, some
  records with a score attached).
\<close>

theorem fuzzy_results_ranked:
  assumes ok: "list_all record_ok data"
    and q: "productName q = Some name" "name \<noteq> []" "use_fuzzy_search q"
  shows "\<exists>data' results.
      search_searchmarks ratio data q = Inr (data', results)
    \<and> sorted_wrt (\<lambda>a b. score_key b \<le> score_key a) results
    \<and> (\<forall>s. subseq (filter (\<lambda>x. score_key x = s) results) data')
    \<and> list_all2 (\<lambda>d' d. d' = d \<or> (\<exists>s. d' = d(''similarity_score'' \<mapsto> JNum s))) data' data"
proof -
  let ?P = "\<lambda>item. 40 \<le> spec_score ratio (py_lower name) item"
  let ?f = "attach_score ratio (py_lower name)"
  let ?data' = "map (\<lambda>item. if ?P item then ?f item else item) data"
  let ?fuzzy = "map ?f (filter ?P data)"
  let ?ranked = "sorted_desc score_key ?fuzzy"
  from ok have names: "list_all (\<lambda>item. text_field (item ''productName'') \<and>
      text_field (item ''productNameEng'')) data"
    by (simp add: list_all_iff record_ok_names)
  have stage: "name_stage ratio q data = Inr (?data', ?ranked)"
    using names q by (rule name_stage_fuzzy)
  from ok have "list_all record_ok ?ranked"
    by (auto simp: list_all_iff set_sorted_desc attach_score_def record_ok_attach)
  then have "passes_on ?ranked (filters q ?ranked)"
    by (rule filters_passes)
  then obtain r where r: "filters q ?ranked = Inr r" "subseq r ?ranked"
    by (auto simp: passes_on_def)
  let ?results = "py_slice_to (limit q) r"
  have search: "search_searchmarks ratio data q = Inr (?data', ?results)"
    by (simp add: search_searchmarks_def stage r(1) then_err_def)
  have sub: "subseq ?results ?ranked"
    using subseq_py_slice_to r(2) by (rule subseq_order.trans)
  then have sorted: "sorted_wrt (\<lambda>a b. score_key b \<le> score_key a) ?results"
    using sorted_sorted_desc by (rule sorted_wrt_subseq)
  have stable: "subseq (filter (\<lambda>x. score_key x = s) ?results) ?data'" for s
  proof -
    from sub have "subseq (filter (\<lambda>x. score_key x = s) ?results)
        (filter (\<lambda>x. score_key x = s) ?ranked)"
      by (rule subseq_filter)
    then have "subseq (filter (\<lambda>x. score_key x = s) ?results)
        (filter (\<lambda>x. score_key x = s) ?fuzzy)"
      by (simp only: sorted_desc_stable)
    also have "subseq (filter (\<lambda>x. score_key x = s) ?fuzzy) ?fuzzy"
      by (rule subseq_filter_left)
    also have "subseq ?fuzzy ?data'"
      by (rule survivors_subseq)
    finally show ?thesis .
  qed
  from search sorted stable stored_list_all2 show ?thesis
    by blast
qed

theorem fuzzy_results_ranked_witness:
  "list_all record_ok [rec_ab, rec_abcd, rec_cd]
   \<and> search_searchmarks indel_ratio [rec_ab, rec_abcd, rec_cd]
       (no_criteria\<lparr>productName := Some ''abcd'', use_fuzzy_search := True\<rparr>) =
     Inr ([rec_ab(''similarity_score'' \<mapsto> JNum (200 / 3)),
           rec_abcd(''similarity_score'' \<mapsto> JNum 100),
           rec_cd(''similarity_score'' \<mapsto> JNum (200 / 3))],
          [rec_abcd(''similarity_score'' \<mapsto> JNum 100),
           rec_ab(''similarity_score'' \<mapsto> JNum (200 / 3)),
           rec_cd(''similarity_score'' \<mapsto> JNum (200 / 3))])"
  using fuzzy_results_ranked [of "[rec_ab, rec_abcd, rec_cd]"
      "no_criteria\<lparr>productName := Some ''abcd'', use_fuzzy_search := True\<rparr>" "''abcd''"
      indel_ratio]
  by (simp add: search_defs similarity_def name_score_def py_slice_to_def rec_ab_def
      rec_abcd_def rec_cd_def no_criteria_def indel_ratio_def py_lower_def lower_char_def
      score_key_def record_ok_def text_field_def list_field_def)

subsection \<open>The code-list filter\<close>

lemma py_str_in_sublist: "py_str_in x s = sublist x s"
proof (induction s)
  case Nil
  show ?case by simp
next
  case (Cons c s)
  show ?case
  proof (cases x)
    case Nil
    then show ?thesis by simp
  next
    case (Cons a y)
    with Cons.IH show ?thesis by (simp add: sublist_Cons_right)
  qed
qed

lemma any_in_JStr_eq: "any_in codes (JStr s) = Inr (list_ex (\<lambda>code. py_str_in code s) codes)"
  by (induction codes) auto

lemma any_in_JList_eq: "any_in codes (JList l) = Inr (set codes \<inter> set l \<noteq> {})"
  by (induction codes) auto

lemma code_match_pass:
  "list_field (item ''asignProductMainCodeList'') \<Longrightarrow> code_match arg item = Inr (code_pass arg item)"
  by (auto simp: code_match_def code_pass_def list_field_def any_in_JStr_eq any_in_JList_eq
      split: option.splits jvalue.splits)

text \<open>
  Claim C6, as the code has it. Over records whose main-code field is absent, \<^verbatim>\<open>None\<close>,
  a list of strings or a string, the code-list filter keeps exactly the records whose
  field is non-empty and contains one of the normalised filter codes, where a list (the
  declared type) contains a code when one of its elements equals it, and only a field
  stored as a single string contains it as a substring.
\<close>

theorem code_filter_is_membership:
  assumes "list_all (\<lambda>item. list_field (item ''asignProductMainCodeList'')) results"
    and "arg \<noteq> []"
  shows "stage (Some arg) code_match results = Inr (filter (code_pass arg) results)"
proof -
  from assms(1) have "\<forall>x\<in>set results. \<exists>b. code_match arg x = Inr b"
    by (simp add: list_all_iff code_match_pass)
  then have "filter_err (code_match arg) results =
      Inr (filter (\<lambda>x. code_match arg x = Inr True) results)"
    by (rule filter_err_total)
  moreover from assms(1) have
    "filter (\<lambda>x. code_match arg x = Inr True) results = filter (code_pass arg) results"
    by (intro filter_cong refl) (simp add: list_all_iff code_match_pass)
  ultimately show ?thesis
    using assms(2) by (simp add: stage_def)
qed

theorem code_filter_is_membership_witness:
  "list_all (\<lambda>item. list_field (item ''asignProductMainCodeList'')) [class_07, class_012, apple]
   \<and> stage (Some ''7, 12'') code_match [class_07, class_012, apple] = Inr [class_07]
   \<and> code_pass ''7'' [''asignProductMainCodeList'' \<mapsto> JStr ''107'']"
  using code_filter_is_membership [of "[class_07, class_012, apple]" "''7, 12''"]
  by (simp add: list_field_def class_07_def class_012_def apple_def code_pass_def
      formatted_codes_def format_code_def py_int_def py_strip_def is_space_def is_digit_def
      digit_val_def)

text \<open>
  Claim C6 as stated fails: the normalised code \<^verbatim>\<open>01\<close> is a substring of \<^verbatim>\<open>012\<close>, and
  the record with the main-code list \<^verbatim>\<open>["012"]\<close> passes neither the filter \<^verbatim>\<open>1\<close> (which
  is normalised to \<^verbatim>\<open>01\<close>) nor the filter \<^verbatim>\<open>01\<close>.
\<close>

theorem code_filter_not_substring:
  "formatted_codes ''1'' = [''01''] \<and> py_str_in ''01'' ''012''
   \<and> search_searchmarks indel_ratio [class_012] (no_criteria\<lparr>asignProductMainCodeList := Some ''1''\<rparr>) =
       Inr ([class_012], [])
   \<and> search_searchmarks indel_ratio [class_012] (no_criteria\<lparr>asignProductMainCodeList := Some ''01''\<rparr>) =
       Inr ([class_012], [])"
  by (simp add: search_defs no_criteria_def class_012_def code_match_def formatted_codes_def
      format_code_def py_int_def py_strip_def is_space_def is_digit_def digit_val_def py_slice_to_def)

subsection \<open>Statistics\<close>

lemma count_statuses_tally:
  "\<forall>item\<in>set data. \<forall>l. status_of item \<noteq> JList l \<Longrightarrow>
   count_statuses m data =
     Inr (\<lambda>s. if tally data s = 0 then m s
              else Some ((case m s of None \<Rightarrow> 0 | Some c \<Rightarrow> c) + tally data s))"
proof (induction data arbitrary: m)
  case Nil
  show ?case by (simp add: tally_def)
next
  case (Cons item rest)
  then have rest: "\<forall>item\<in>set rest. \<forall>l. status_of item \<noteq> JList l"
    and item: "\<forall>l. status_of item \<noteq> JList l"
    by simp_all
  let ?s = "status_of item"
  let ?m = "m(?s \<mapsto> (case m ?s of None \<Rightarrow> 0 | Some c \<Rightarrow> c) + 1)"
  from item have "count_statuses m (item # rest) = count_statuses ?m rest"
    by (cases ?s) simp_all
  also have "\<dots> = Inr (\<lambda>s. if tally rest s = 0 then ?m s
              else Some ((case ?m s of None \<Rightarrow> 0 | Some c \<Rightarrow> c) + tally rest s))"
    using rest by (rule Cons.IH)
  also have "(\<lambda>s. if tally rest s = 0 then ?m s
              else Some ((case ?m s of None \<Rightarrow> 0 | Some c \<Rightarrow> c) + tally rest s)) =
      (\<lambda>s. if tally (item # rest) s = 0 then m s
              else Some ((case m s of None \<Rightarrow> 0 | Some c \<Rightarrow> c) + tally (item # rest) s))"
    by (rule ext) (simp add: tally_def)
  finally show ?case .
qed

text \<open>
  Claim C8, as the code has it. For a stored list that is not empty (and whose statuses
  can be dictionary keys), the statistics are the number of records and the map of the
  number of records of each status that occurs; a record without the key
  \<^verbatim>\<open>registerStatus\<close> counts under the sentinel.
\<close>

theorem statistics_of_nonempty:
  assumes "data \<noteq> []" and "list_all (\<lambda>item. hashable (status_of item)) data"
  shows "get_statistics data = Inr \<lparr>total = length data, status_counts = Some (tally_map data)\<rparr>
    \<and> (item ''registerStatus'' = None \<longrightarrow> status_of item = JStr unclassified)"
proof -
  have "count_statuses Map.empty data =
      Inr (\<lambda>s. if tally data s = 0 then Map.empty s
              else Some ((case Map.empty s of None \<Rightarrow> 0 | Some c \<Rightarrow> c) + tally data s))"
  proof (rule count_statuses_tally)
    from assms(2) show "\<forall>item\<in>set data. \<forall>l. status_of item \<noteq> JList l"
      by (auto simp: list_all_iff hashable_def)
  qed
  also have "(\<lambda>s. if tally data s = 0 then Map.empty s
              else Some ((case Map.empty s of None \<Rightarrow> 0 | Some c \<Rightarrow> c) + tally data s)) =
      tally_map data"
    by (rule ext) (simp add: tally_map_def)
  finally have "count_statuses Map.empty data = Inr (tally_map data)" .
  with assms(1) show ?thesis
    by (simp add: get_statistics_def status_of_def)
qed

theorem statistics_of_nonempty_witness:
  "[apple, registered, registered] \<noteq> []
   \<and> list_all (\<lambda>item. hashable (status_of item)) [apple, registered, registered]
   \<and> get_statistics [apple, registered, registered] =
       Inr \<lparr>total = 3, status_counts = Some (tally_map [apple, registered, registered])\<rparr>
   \<and> tally_map [apple, registered, registered] (JStr unclassified) = Some 1
   \<and> tally_map [apple, registered, registered] (JStr ''registered'') = Some 2
   \<and> tally_map [apple, registered, registered] (JStr ''refused'') = None
   \<and> apple ''registerStatus'' = None \<and> status_of apple = JStr unclassified"
  using statistics_of_nonempty [of "[apple, registered, registered]" apple]
  by (simp add: status_of_def apple_def registered_def tally_map_def tally_def unclassified_def
      hashable_def)

text \<open>
  Claim C8 as stated fails on the empty stored list: the statistics are the total 0
  alone, without a map of counts.
\<close>

theorem statistics_of_empty:
  "get_statistics [] = Inr \<lparr>total = 0, status_counts = None\<rparr>"
  by (simp add: get_statistics_def)

subsection \<open>Truncation to the limit\<close>

text \<open>
  Claim C7. The result of a query is the list that the filter passes leave of the
  working list of the name stage, cut by \<^verbatim>\<open>[:limit]\<close>; it is also the result of the
  same query without a limit, cut in the same way (an error stays the error, the stored
  list is the same). Without a limit the whole filtered list is returned; a limit
  \<open>n \<ge> 0\<close> returns its first \<open>n\<close> records (all of them when there are fewer), so
  limit 0 returns the empty list; a negative limit drops that many records from the end.
\<close>

theorem search_limit:
  "search_searchmarks ratio data q =
     map_sum id (\<lambda>(data', filtered). (data', py_slice_to (limit q) filtered))
       (search_searchmarks ratio data (q\<lparr>limit := None\<rparr>))
   \<and> py_slice_to None filtered = filtered
   \<and> (search_searchmarks ratio data (q\<lparr>limit := None\<rparr>) = Inr (data', filtered) \<longrightarrow>
        search_searchmarks ratio data (q\<lparr>limit := Some 0\<rparr>) = Inr (data', [])
      \<and> (0 \<le> n \<longrightarrow>
           search_searchmarks ratio data (q\<lparr>limit := Some n\<rparr>) =
             Inr (data', take (nat n) filtered))
      \<and> (m < 0 \<longrightarrow>
           search_searchmarks ratio data (q\<lparr>limit := Some m\<rparr>) =
             Inr (data', take (length filtered - nat (- m)) filtered)))
   \<and> (name_stage ratio q data = Inr (data', working) \<and> filters q working = Inr filtered \<longrightarrow>
        search_searchmarks ratio data (q\<lparr>limit := None\<rparr>) = Inr (data', filtered)
      \<and> search_searchmarks ratio data q = Inr (data', py_slice_to (limit q) filtered))"
  by (auto simp add: search_searchmarks_def then_err_def py_slice_to_def
      name_stage_other_fields filters_other_fields split: sum.splits prod.splits)

theorem search_limit_witness:
  "name_stage indel_ratio (no_criteria\<lparr>asignProductMainCodeList := Some ''7, 012''\<rparr>)
     [class_012, apple, class_07, registered, class_012] =
     Inr ([class_012, apple, class_07, registered, class_012],
          [class_012, apple, class_07, registered, class_012])
   \<and> filters (no_criteria\<lparr>asignProductMainCodeList := Some ''7, 012''\<rparr>)
       [class_012, apple, class_07, registered, class_012] =
     Inr [class_012, class_07, class_012]
   \<and> search_searchmarks indel_ratio [class_012, apple, class_07, registered, class_012]
       (no_criteria\<lparr>asignProductMainCodeList := Some ''7, 012'', limit := None\<rparr>) =
     Inr ([class_012, apple, class_07, registered, class_012],
          [class_012, class_07, class_012])
   \<and> search_searchmarks indel_ratio [class_012, apple, class_07, registered, class_012]
       (no_criteria\<lparr>asignProductMainCodeList := Some ''7, 012'', limit := Some 0\<rparr>) =
     Inr ([class_012, apple, class_07, registered, class_012], [])
   \<and> search_searchmarks indel_ratio [class_012, apple, class_07, registered, class_012]
       (no_criteria\<lparr>asignProductMainCodeList := Some ''7, 012'', limit := Some 2\<rparr>) =
     Inr ([class_012, apple, class_07, registered, class_012], [class_012, class_07])
   \<and> search_searchmarks indel_ratio [class_012, apple, class_07, registered, class_012]
       (no_criteria\<lparr>asignProductMainCodeList := Some ''7, 012'', limit := Some (- 1)\<rparr>) =
     Inr ([class_012, apple, class_07, registered, class_012], [class_012, class_07])"
  using search_limit [where ratio = indel_ratio
      and data = "[class_012, apple, class_07, registered, class_012]"
      and q = "no_criteria\<lparr>asignProductMainCodeList := Some ''7, 012''\<rparr>"
      and data' = "[class_012, apple, class_07, registered, class_012]"
      and working = "[class_012, apple, class_07, registered, class_012]"
      and filtered = "[class_012, class_07, class_012]" and n = 2 and m = "- 1"]
  by (simp add: search_defs no_criteria_def py_slice_to_def class_012_def class_07_def apple_def
      registered_def code_match_def formatted_codes_def format_code_def py_int_def py_strip_def
      is_space_def is_digit_def digit_val_def)

subsection \<open>Empty criteria\<close>

text \<open>
  Claim C10. A criterion given as the empty string is treated as one that is not given,
  for each of the nine criteria; with an empty name the name stage, also in fuzzy mode,
  leaves the stored list and the working list as they are (no scoring, no reordering).
\<close>

theorem empty_criterion_is_omitted:
  "search_searchmarks ratio data (q\<lparr>productName := Some []\<rparr>) =
     search_searchmarks ratio data (q\<lparr>productName := None\<rparr>)
   \<and> search_searchmarks ratio data (q\<lparr>status := Some []\<rparr>) =
     search_searchmarks ratio data (q\<lparr>status := None\<rparr>)
   \<and> search_searchmarks ratio data (q\<lparr>asignProductMainCodeList := Some []\<rparr>) =
     search_searchmarks ratio data (q\<lparr>asignProductMainCodeList := None\<rparr>)
   \<and> search_searchmarks ratio data (q\<lparr>applicationNumber := Some []\<rparr>) =
     search_searchmarks ratio data (q\<lparr>applicationNumber := None\<rparr>)
   \<and> search_searchmarks ratio data (q\<lparr>publicationNumber := Some []\<rparr>) =
     search_searchmarks ratio data (q\<lparr>publicationNumber := None\<rparr>)
   \<and> search_searchmarks ratio data (q\<lparr>registrationNumber := Some []\<rparr>) =
     search_searchmarks ratio data (q\<lparr>registrationNumber := None\<rparr>)
   \<and> search_searchmarks ratio data (q\<lparr>internationalRegNumbers := Some []\<rparr>) =
     search_searchmarks ratio data (q\<lparr>internationalRegNumbers := None\<rparr>)
   \<and> search_searchmarks ratio data (q\<lparr>priorityClaimNumList := Some []\<rparr>) =
     search_searchmarks ratio data (q\<lparr>priorityClaimNumList := None\<rparr>)
   \<and> search_searchmarks ratio data (q\<lparr>viennaCodeList := Some []\<rparr>) =
     search_searchmarks ratio data (q\<lparr>viennaCodeList := None\<rparr>)
   \<and> name_stage ratio (q\<lparr>productName := Some [], use_fuzzy_search := True\<rparr>) data =
     Inr (data, data)"
proof -
  have "name_stage ratio (q\<lparr>productName := Some [], use_fuzzy_search := True\<rparr>) data =
     Inr (data, data)"
    by (simp add: name_stage_def)
  then show ?thesis
    by (simp add: search_searchmarks_def name_stage_other_fields name_stage_empty
        filters_other_fields filters_def stage_def)
qed

theorem empty_criterion_is_omitted_witness:
  "search_searchmarks indel_ratio [apple_inc, apple]
     (no_criteria\<lparr>use_fuzzy_search := True, productName := Some []\<rparr>) =
   Inr ([apple_inc, apple], [apple_inc, apple])"
  using empty_criterion_is_omitted [of indel_ratio "[apple_inc, apple]" "no_criteria\<lparr>use_fuzzy_search := True\<rparr>"]
  by (simp add: search_defs no_criteria_def py_slice_to_def)

subsection \<open>The stored list after a fuzzy query\<close>

text \<open>
  Claim C1, evaluated on the code. A fuzzy query for \<^verbatim>\<open>apple\<close> over a stored list with
  the one record \<^verbatim>\<open>{productName: apple}\<close> leaves the stored record with a
  \<^verbatim>\<open>similarity_score\<close> of 100: the stored list is not what it was.
\<close>

theorem fuzzy_query_writes_score:
  "search_searchmarks indel_ratio [apple]
     (no_criteria\<lparr>productName := Some ''apple'', use_fuzzy_search := True\<rparr>)
   = Inr ([apple(''similarity_score'' \<mapsto> JNum 100)], [apple(''similarity_score'' \<mapsto> JNum 100)])
   \<and> [apple(''similarity_score'' \<mapsto> JNum 100)] \<noteq> [apple]"
proof -
  have "apple(''similarity_score'' \<mapsto> JNum 100) \<noteq> apple"
  proof
    assume "apple(''similarity_score'' \<mapsto> JNum 100) = apple"
    then have "(apple(''similarity_score'' \<mapsto> JNum 100)) ''similarity_score'' =
        apple ''similarity_score''"
      by simp
    then show False by (simp add: apple_def)
  qed
  then show ?thesis
    by (simp add: search_defs no_criteria_def apple_def similarity_def name_score_def
        indel_ratio_def py_lower_def lower_char_def py_slice_to_def)
qed

subsection \<open>The plain name filter\<close>

text \<open>
  Claim C3, evaluated on the code. The plain name filter lowercases the query only. The
  query \<^verbatim>\<open>apple\<close> does not match the record named \<^verbatim>\<open>Apple Inc\<close>, although the
  lowercased query is a substring of the lowercased name.
\<close>

theorem plain_name_filter_is_case_sensitive:
  "search_searchmarks indel_ratio [apple_inc] (no_criteria\<lparr>productName := Some ''apple''\<rparr>) =
     Inr ([apple_inc], [])
   \<and> py_str_in (py_lower ''apple'') (py_lower ''Apple Inc'')"
  by (simp add: search_defs no_criteria_def apple_inc_def name_match_def contains_filter_def
      py_lower_def lower_char_def py_slice_to_def)

subsection \<open>Normalisation of the code-list filter\<close>

text \<open>
  Claim C2, evaluated on the code. The filter \<^verbatim>\<open>7\<close> is normalised to \<^verbatim>\<open>07\<close>, and the
  filter \<^verbatim>\<open>07\<close> to \<^verbatim>\<open>007\<close>: a record with main code \<^verbatim>\<open>07\<close> is matched by the
  first and not by the second.
\<close>

theorem padded_code_is_padded_again:
  "formatted_codes ''7'' = [''07''] \<and> formatted_codes ''07'' = [''007'']
   \<and> search_searchmarks indel_ratio [class_07] (no_criteria\<lparr>asignProductMainCodeList := Some ''7''\<rparr>) =
       Inr ([class_07], [class_07])
   \<and> search_searchmarks indel_ratio [class_07] (no_criteria\<lparr>asignProductMainCodeList := Some ''07''\<rparr>) =
       Inr ([class_07], [])"
  by (simp add: search_defs no_criteria_def class_07_def code_match_def formatted_codes_def
      format_code_def py_int_def py_strip_def is_space_def is_digit_def digit_val_def py_slice_to_def)


end
